theory Spec2Isabelle
  imports Main "HOL-Library.Word"
begin

section \<open>Values that cross the boundary of the program\<close>

text \<open>
  A request body is a JSON value as the body parser delivers it; \<open>JUndefined\<close> is what
  reading a missing property gives. The numeric value of a number is never inspected by
  the schemas below.
\<close>

datatype jsval =
    JUndefined
  | JNull
  | JBoolean bool
  | JNumber int
  | JString string
  | JArray "jsval list"
  | JObject "(string \<times> jsval) list"

text \<open>A JavaScript \<open>Date\<close>, as milliseconds since the epoch.\<close>

type_synonym date = int

text \<open>
  A thrown value. Everything the program itself throws is an \<open>Error\<close> with a message;
  the SDK throws subclasses of \<open>Error\<close>, which the handlers treat alike
  (\<open>error instanceof Error ? error.message : ...\<close>).
\<close>

datatype js_error = Error string | NonErrorThrown

text \<open>Property access \<open>obj[k]\<close> on a parsed JSON value.\<close>

fun getProp :: "jsval \<Rightarrow> string \<Rightarrow> jsval" where
  "getProp (JObject kvs) k = (case map_of kvs k of None \<Rightarrow> JUndefined | Some v \<Rightarrow> v)"
| "getProp _ k = JUndefined"

section \<open>shared/schema.ts\<close>

record AwsCredentials =
  accessKeyId :: string
  secretAccessKey :: string
  region :: string
  sessionToken :: "string option"

text \<open>
  \<open>S3Object\<close>. The field \<open>size\<close> is named \<open>size_of\<close> here. The source fills \<open>key\<close>
  with \<open>prefix.Prefix!\<close> and \<open>object.Key!\<close>; the non-null assertion is erased at run
  time, so the value is whatever the provider sent, possibly nothing.
\<close>

record S3Object =
  key :: "string option"
  size_of :: "int option"
  lastModified :: "date option"
  etag :: "string option"
  storageClass :: "string option"
  isFolder :: bool

text \<open>\<open>S3Bucket\<close>; its \<open>region\<close> field is named \<open>bucket_region\<close> here.\<close>

record S3Bucket =
  name :: "string option"
  bucket_region :: string
  creationDate :: "date option"

text \<open>\<open>S3Session\<close>; its \<open>id\<close> field is named \<open>session_id\<close> here.\<close>

record S3Session =
  session_id :: string
  credentials :: AwsCredentials
  createdAt :: date

subsection \<open>The validation library, as far as \<open>awsCredentialsSchema\<close> uses it\<close>

datatype issue_code = invalid_type | too_small

record ZodIssue =
  code :: issue_code
  path :: "string list"
  message :: string

text \<open>The name the library reports for the type of a received value.\<close>

fun parsedType :: "jsval \<Rightarrow> string" where
  "parsedType JUndefined = ''undefined''"
| "parsedType JNull = ''null''"
| "parsedType (JBoolean b) = ''boolean''"
| "parsedType (JNumber n) = ''number''"
| "parsedType (JString s) = ''string''"
| "parsedType (JArray xs) = ''array''"
| "parsedType (JObject kvs) = ''object''"

definition invalid_type_issue :: "string list \<Rightarrow> string \<Rightarrow> jsval \<Rightarrow> ZodIssue" where
  "invalid_type_issue p expected v =
     \<lparr>code = invalid_type, path = p,
      message = (if v = JUndefined then ''Required''
                 else ''Expected '' @ expected @ '', received '' @ parsedType v)\<rparr>"

text \<open>\<open>z.string().min(1, msg)\<close> applied to the property \<open>field\<close>.\<close>

fun z_string_min1 :: "string \<Rightarrow> string \<Rightarrow> jsval \<Rightarrow> ZodIssue list + string" where
  "z_string_min1 field msg (JString s) =
     (if length s < 1 then Inl [\<lparr>code = too_small, path = [field], message = msg\<rparr>]
      else Inr s)"
| "z_string_min1 field msg v = Inl [invalid_type_issue [field] ''string'' v]"

text \<open>\<open>z.string().optional()\<close> applied to the property \<open>field\<close>.\<close>

fun z_string_optional :: "string \<Rightarrow> jsval \<Rightarrow> ZodIssue list + string option" where
  "z_string_optional field JUndefined = Inr None"
| "z_string_optional field (JString s) = Inr (Some s)"
| "z_string_optional field v = Inl [invalid_type_issue [field] ''string'' v]"

definition issues_of :: "ZodIssue list + 'a \<Rightarrow> ZodIssue list" where
  "issues_of r = (case r of Inl issues \<Rightarrow> issues | Inr _ \<Rightarrow> [])"

text \<open>
  \<open>awsCredentialsSchema.parse\<close>: every property of the shape is checked, in the order of
  the shape, and the issues of all of them are collected; unknown properties are dropped.
  \<open>Inl\<close> carries the issues of the \<open>ZodError\<close> that \<open>parse\<close> throws.
\<close>

definition awsCredentialsSchema_parse :: "jsval \<Rightarrow> ZodIssue list + AwsCredentials" where
  "awsCredentialsSchema_parse body =
     (case body of
        JObject kvs \<Rightarrow>
          (let a = z_string_min1 ''accessKeyId'' ''Access Key ID is required''
                     (getProp body ''accessKeyId'');
               s = z_string_min1 ''secretAccessKey'' ''Secret Access Key is required''
                     (getProp body ''secretAccessKey'');
               r = z_string_min1 ''region'' ''Region is required'' (getProp body ''region'');
               t = z_string_optional ''sessionToken'' (getProp body ''sessionToken'')
           in (case (a, s, r, t) of
                 (Inr a', Inr s', Inr r', Inr t') \<Rightarrow>
                   Inr \<lparr>accessKeyId = a', secretAccessKey = s', region = r',
                        sessionToken = t'\<rparr>
               | _ \<Rightarrow> Inl (issues_of a @ issues_of s @ issues_of r @ issues_of t)))
      | _ \<Rightarrow> Inl [invalid_type_issue [] ''object'' body])"

section \<open>server/storage.ts\<close>

type_synonym MemStorage = "string \<rightharpoonup> S3Session"

definition getSession :: "MemStorage \<Rightarrow> string \<Rightarrow> S3Session option" where
  "getSession sessions sessionId = sessions sessionId"

text \<open>
  \<open>createSession\<close>. The two readings of the environment are parameters: \<open>random36\<close> is
  the string \<open>Math.random().toString(36)\<close> and \<open>now\<close> is \<open>new Date()\<close>.
  \<open>substring(7)\<close> drops the first seven characters and gives the empty string when
  there are no more.
\<close>

definition createSession ::
  "string \<Rightarrow> date \<Rightarrow> MemStorage \<Rightarrow> AwsCredentials \<Rightarrow> S3Session \<times> MemStorage" where
  "createSession random36 now sessions creds =
     (let sessionId = drop 7 random36;
          session = \<lparr>session_id = sessionId, credentials = creds, createdAt = now\<rparr>
      in (session, sessions(sessionId \<mapsto> session)))"

definition deleteSession :: "MemStorage \<Rightarrow> string \<Rightarrow> MemStorage" where
  "deleteSession sessions sessionId = sessions(sessionId := None)"

text \<open>
  A JavaScript number is an IEEE 754 double, 64 bits wide. Only the width is used: the
  digits that \<open>toString(36)\<close> prints for a double are a parameter where they matter.
\<close>

type_synonym float64 = "64 word"

section \<open>server/services/aws.ts\<close>

text \<open>What the storage provider answers to \<open>ListBucketsCommand\<close>.\<close>

record Bucket =
  Name :: "string option"
  CreationDate :: "date option"

record ListBucketsOutput =
  Buckets :: "Bucket list option"

text \<open>What the storage provider answers to \<open>ListObjectsV2Command\<close>.\<close>

record CommonPrefix =
  Prefix :: "string option"

record Object =
  Key :: "string option"
  Size :: "int option"
  LastModified :: "date option"
  ETag :: "string option"
  StorageClass :: "string option"

record ListObjectsV2Output =
  CommonPrefixes :: "CommonPrefix list option"
  Contents :: "Object list option"

text \<open>
  The SDK, which is not part of the program, is a parameter: the constructor of the
  client, one \<open>send\<close> per command (with the fields of the command as arguments, in the
  order the source writes them) and the presigner of a \<open>GetObjectCommand\<close> (bucket,
  key, \<open>expiresIn\<close>). The type \<open>'c\<close> is the client. Each operation below makes at most one
  call, so the answer of the provider is a function of the call.
\<close>

record 'c sdk =
  newS3Client :: "AwsCredentials \<Rightarrow> js_error + 'c"
  send_ListBuckets :: "'c \<Rightarrow> js_error + ListBucketsOutput"
  send_ListObjectsV2 :: "'c \<Rightarrow> string \<Rightarrow> string \<Rightarrow> string \<Rightarrow> js_error + ListObjectsV2Output"
  getSignedUrl_GetObject :: "'c \<Rightarrow> string \<Rightarrow> string \<Rightarrow> nat \<Rightarrow> js_error + string"
  send_DeleteObject :: "'c \<Rightarrow> string \<Rightarrow> string \<Rightarrow> js_error + unit"
  send_PutObject :: "'c \<Rightarrow> string \<Rightarrow> string \<Rightarrow> string \<Rightarrow> js_error + unit"

text \<open>The class \<open>AwsService\<close>: its one field, \<open>null\<close> until a client is constructed.\<close>

record 'c AwsService =
  s3Client :: "'c option"

definition new_AwsService :: "'c AwsService" where
  "new_AwsService = \<lparr>s3Client = None\<rparr>"

text \<open>
  \<open>initializeWithCredentials\<close>: the field is assigned only when the constructor
  returns. Calls of the logger are left out of every operation: they write a log line
  and return.
\<close>

definition initializeWithCredentials ::
  "'c sdk \<Rightarrow> 'c AwsService \<Rightarrow> AwsCredentials \<Rightarrow> (js_error + unit) \<times> 'c AwsService" where
  "initializeWithCredentials sdk svc creds =
     (case newS3Client sdk creds of
        Inl e \<Rightarrow> (Inl e, svc)
      | Inr c \<Rightarrow> (Inr (), svc\<lparr>s3Client := Some c\<rparr>))"

text \<open>\<open>xs || []\<close>, and the list that a loop guarded by \<open>if (xs)\<close> runs over.\<close>

definition list_of :: "'a list option \<Rightarrow> 'a list" where
  "list_of xs = (case xs of None \<Rightarrow> [] | Some ys \<Rightarrow> ys)"

definition listBuckets :: "'c sdk \<Rightarrow> 'c AwsService \<Rightarrow> js_error + S3Bucket list" where
  "listBuckets sdk svc =
     (case s3Client svc of
        None \<Rightarrow> Inl (Error ''AWS client not initialized'')
      | Some c \<Rightarrow>
          (case send_ListBuckets sdk c of
             Inl e \<Rightarrow> Inl e
           | Inr response \<Rightarrow>
               Inr (map (\<lambda>bucket. \<lparr>name = Name bucket, bucket_region = ''us-east-1'',
                                    creationDate = CreationDate bucket\<rparr>)
                        (list_of (Buckets response)))))"

text \<open>\<open>objects.push(x)\<close>.\<close>

definition push :: "'a list \<Rightarrow> 'a \<Rightarrow> 'a list" where
  "push objects x = objects @ [x]"

text \<open>
  The object that the first loop of \<open>listObjects\<close> builds for a common prefix: only
  \<open>key\<close> and \<open>isFolder\<close> are written.
\<close>

definition folder_entry :: "CommonPrefix \<Rightarrow> S3Object" where
  "folder_entry prefix =
     \<lparr>key = Prefix prefix, size_of = None, lastModified = None, etag = None,
      storageClass = None, isFolder = True\<rparr>"

text \<open>The object that the second loop builds for an entry of \<open>Contents\<close>.\<close>

definition file_entry :: "Object \<Rightarrow> S3Object" where
  "file_entry object =
     \<lparr>key = Key object, size_of = Size object, lastModified = LastModified object,
      etag = ETag object, storageClass = StorageClass object, isFolder = False\<rparr>"

text \<open>The body of the first loop.\<close>

definition push_folder :: "S3Object list \<Rightarrow> CommonPrefix \<Rightarrow> S3Object list" where
  "push_folder objects prefix = push objects (folder_entry prefix)"

text \<open>
  The body of the second loop; \<open>prefix\<close> is the parameter of \<open>listObjects\<close> again (the
  loop variable of the first loop shadowed it only there). A missing \<open>Key\<close> is not equal
  to any string.
\<close>

definition push_file :: "string \<Rightarrow> S3Object list \<Rightarrow> Object \<Rightarrow> S3Object list" where
  "push_file prefix objects object =
     (if Key object \<noteq> Some prefix then push objects (file_entry object) else objects)"

text \<open>The part of \<open>listObjects\<close> after the provider has answered.\<close>

definition collect_objects :: "string \<Rightarrow> ListObjectsV2Output \<Rightarrow> S3Object list" where
  "collect_objects prefix response =
     (let objects = [];
          objects = (case CommonPrefixes response of
                       None \<Rightarrow> objects
                     | Some cps \<Rightarrow> foldl push_folder objects cps);
          objects = (case Contents response of
                       None \<Rightarrow> objects
                     | Some cs \<Rightarrow> foldl (push_file prefix) objects cs)
      in objects)"

text \<open>A parameter with a default value: an argument that is left out is \<open>None\<close>.\<close>

definition arg_or :: "string option \<Rightarrow> string \<Rightarrow> string" where
  "arg_or arg dflt = (case arg of None \<Rightarrow> dflt | Some v \<Rightarrow> v)"

text \<open>\<open>listObjects(bucketName, prefix = '', delimiter = '/')\<close>.\<close>

definition listObjects ::
  "'c sdk \<Rightarrow> 'c AwsService \<Rightarrow> string \<Rightarrow> string option \<Rightarrow> string option
     \<Rightarrow> js_error + S3Object list" where
  "listObjects sdk svc bucketName prefix_arg delimiter_arg =
     (let prefix = arg_or prefix_arg '''';
          delimiter = arg_or delimiter_arg ''/''
      in case s3Client svc of
           None \<Rightarrow> Inl (Error ''AWS client not initialized'')
         | Some c \<Rightarrow>
             (case send_ListObjectsV2 sdk c bucketName prefix delimiter of
                Inl e \<Rightarrow> Inl e
              | Inr response \<Rightarrow> Inr (collect_objects prefix response)))"

definition getDownloadUrl ::
  "'c sdk \<Rightarrow> 'c AwsService \<Rightarrow> string \<Rightarrow> string \<Rightarrow> js_error + string" where
  "getDownloadUrl sdk svc bucketName k =
     (case s3Client svc of
        None \<Rightarrow> Inl (Error ''AWS client not initialized'')
      | Some c \<Rightarrow> getSignedUrl_GetObject sdk c bucketName k 3600)"

definition deleteObject ::
  "'c sdk \<Rightarrow> 'c AwsService \<Rightarrow> string \<Rightarrow> string \<Rightarrow> js_error + unit" where
  "deleteObject sdk svc bucketName k =
     (case s3Client svc of
        None \<Rightarrow> Inl (Error ''AWS client not initialized'')
      | Some c \<Rightarrow> send_DeleteObject sdk c bucketName k)"

definition uploadObject ::
  "'c sdk \<Rightarrow> 'c AwsService \<Rightarrow> string \<Rightarrow> string \<Rightarrow> string \<Rightarrow> js_error + unit" where
  "uploadObject sdk svc bucketName k body =
     (case s3Client svc of
        None \<Rightarrow> Inl (Error ''AWS client not initialized'')
      | Some c \<Rightarrow> send_PutObject sdk c bucketName k body)"

section \<open>The routes (\<open>registerRoutes\<close>)\<close>

text \<open>
  The session that the cookie middleware reads from the signed cookie: \<open>req.session\<close>
  (\<open>None\<close> when it is \<open>null\<close>) and its property \<open>sessionId\<close>, which only the connect
  handlers write, with the \<open>id\<close> of a session.
\<close>

record CookieSession =
  sessionId :: "string option"

record Request =
  session :: "CookieSession option"

datatype ResBody =
    Connected bool "string option"
  | Success
  | ErrorBody string
  | BucketsBody "S3Bucket list"

record Response =
  statusCode :: nat
  resBody :: ResBody

text \<open>The two module-level singletons, \<open>storage\<close> and \<open>awsService\<close>.\<close>

record 'c Server =
  storage :: MemStorage
  awsService :: "'c AwsService"

text \<open>\<open>res.json(b)\<close> answers with status 200, \<open>res.status(n).json(b)\<close> with \<open>n\<close>.\<close>

definition json :: "ResBody \<Rightarrow> Response" where
  "json b = \<lparr>statusCode = 200, resBody = b\<rparr>"

definition status_json :: "nat \<Rightarrow> ResBody \<Rightarrow> Response" where
  "status_json n b = \<lparr>statusCode = n, resBody = b\<rparr>"

text \<open>\<open>req.session?.sessionId\<close>.\<close>

definition req_sessionId :: "Request \<Rightarrow> string option" where
  "req_sessionId req = (case session req of None \<Rightarrow> None | Some s \<Rightarrow> sessionId s)"

text \<open>\<open>!sessionId\<close>: a missing value and the empty string are falsy.\<close>

definition falsy :: "string option \<Rightarrow> bool" where
  "falsy v = (case v of None \<Rightarrow> True | Some s \<Rightarrow> s = [])"

text \<open>\<open>error instanceof Error ? error.message : fallback\<close>.\<close>

definition message_or :: "js_error \<Rightarrow> string \<Rightarrow> string" where
  "message_or e fallback = (case e of Error m \<Rightarrow> m | NonErrorThrown \<Rightarrow> fallback)"

text \<open>\<open>GET /api/connection/status\<close>.\<close>

definition connection_status :: "'c sdk \<Rightarrow> 'c Server \<Rightarrow> Request \<Rightarrow> Response \<times> 'c Server" where
  "connection_status sdk srv req =
     (case req_sessionId req of
        None \<Rightarrow> (json (Connected False None), srv)
      | Some sid \<Rightarrow>
          if falsy (Some sid) then (json (Connected False None), srv)
          else
            (case getSession (storage srv) sid of
               None \<Rightarrow> (json (Connected False None), srv)
             | Some s \<Rightarrow>
                 (case initializeWithCredentials sdk (awsService srv) (credentials s) of
                    (Inl e, svc) \<Rightarrow>
                      (json (Connected False None), srv\<lparr>awsService := svc\<rparr>)
                  | (Inr u, svc) \<Rightarrow>
                      (json (Connected True (Some (region (credentials s)))),
                       srv\<lparr>awsService := svc\<rparr>))))"

text \<open>
  \<open>POST /api/disconnect\<close>. The third component is \<open>req.session\<close> after the handler,
  from which the middleware writes the cookie of the response. Nothing inside the
  \<open>try\<close> block throws (\<open>deleteSession\<close> is a \<open>Map.delete\<close>), so the \<open>catch\<close> branch with
  its status 500 has no counterpart here.
\<close>

definition disconnect ::
  "'c Server \<Rightarrow> Request \<Rightarrow> Response \<times> 'c Server \<times> CookieSession option" where
  "disconnect srv req =
     (case req_sessionId req of
        None \<Rightarrow> (json Success, srv, session req)
      | Some sid \<Rightarrow>
          if falsy (Some sid) then (json Success, srv, session req)
          else (json Success, srv\<lparr>storage := deleteSession (storage srv) sid\<rparr>, None))"

text \<open>\<open>GET /api/buckets\<close>.\<close>

definition get_buckets :: "'c sdk \<Rightarrow> 'c Server \<Rightarrow> Request \<Rightarrow> Response \<times> 'c Server" where
  "get_buckets sdk srv req =
     (case req_sessionId req of
        None \<Rightarrow> (status_json 401 (ErrorBody ''Not connected''), srv)
      | Some sid \<Rightarrow>
          if falsy (Some sid) then (status_json 401 (ErrorBody ''Not connected''), srv)
          else
            (case getSession (storage srv) sid of
               None \<Rightarrow> (status_json 401 (ErrorBody ''Invalid session''), srv)
             | Some s \<Rightarrow>
                 (case initializeWithCredentials sdk (awsService srv) (credentials s) of
                    (Inl e, svc) \<Rightarrow>
                      (status_json 500 (ErrorBody (message_or e ''Failed to list buckets'')),
                       srv\<lparr>awsService := svc\<rparr>)
                  | (Inr u, svc) \<Rightarrow>
                      (case listBuckets sdk svc of
                         Inl e \<Rightarrow>
                           (status_json 500
                              (ErrorBody (message_or e ''Failed to list buckets'')),
                            srv\<lparr>awsService := svc\<rparr>)
                       | Inr buckets \<Rightarrow>
                           (json (BucketsBody buckets), srv\<lparr>awsService := svc\<rparr>)))))"

subsection \<open>What the storage service answers to a listing\<close>



subsection \<open>Later calls of the store\<close>

text \<open>
  The handlers reach the store only through \<open>createSession\<close> (the connect handlers)
  and \<open>deleteSession\<close> (the disconnect handler), so the store at a later time is the
  store now after a sequence of such calls. \<open>generated_id\<close> is the id that a call of
  \<open>createSession\<close> generates.
\<close>

datatype store_op = CreateOp string date AwsCredentials | DeleteOp string

fun apply_store_op :: "MemStorage \<Rightarrow> store_op \<Rightarrow> MemStorage" where
  "apply_store_op sessions (CreateOp random36 now creds) =
     snd (createSession random36 now sessions creds)"
| "apply_store_op sessions (DeleteOp sid) = deleteSession sessions sid"

fun generated_id :: "store_op \<Rightarrow> string option" where
  "generated_id (CreateOp random36 now creds) =
     Some (session_id (fst (createSession random36 now Map.empty creds)))"
| "generated_id (DeleteOp sid) = None"

section \<open>Concrete inputs\<close>

text \<open>
  Inputs on which the operations are evaluated below: a credential record, a provider
  whose constructor succeeds and which answers every listing with a given response and
  refuses the other calls, and a provider whose constructor throws.
\<close>

definition sample_credentials :: AwsCredentials where
  "sample_credentials =
     \<lparr>accessKeyId = ''AKIAEXAMPLE'', secretAccessKey = ''s3cr3t'', region = ''eu-west-1'',
      sessionToken = None\<rparr>"

definition listing_sdk :: "ListObjectsV2Output \<Rightarrow> unit sdk" where
  "listing_sdk response =
     \<lparr>newS3Client = (\<lambda>creds. Inr ()),
      send_ListBuckets = (\<lambda>c. Inl (Error ''AccessDenied'')),
      send_ListObjectsV2 = (\<lambda>c b p d. Inr response),
      getSignedUrl_GetObject = (\<lambda>c b k n. Inl (Error ''AccessDenied'')),
      send_DeleteObject = (\<lambda>c b k. Inl (Error ''AccessDenied'')),
      send_PutObject = (\<lambda>c b k body. Inl (Error ''AccessDenied''))\<rparr>"

definition failing_sdk :: "unit sdk" where
  "failing_sdk =
     \<lparr>newS3Client = (\<lambda>creds. Inl (Error ''Region is missing'')),
      send_ListBuckets = (\<lambda>c. Inl (Error ''AccessDenied'')),
      send_ListObjectsV2 = (\<lambda>c b p d. Inl (Error ''AccessDenied'')),
      getSignedUrl_GetObject = (\<lambda>c b k n. Inl (Error ''AccessDenied'')),
      send_DeleteObject = (\<lambda>c b k. Inl (Error ''AccessDenied'')),
      send_PutObject = (\<lambda>c b k body. Inl (Error ''AccessDenied''))\<rparr>"

definition sample_session :: S3Session where
  "sample_session = \<lparr>session_id = ''k3x9q2'', credentials = sample_credentials, createdAt = 0\<rparr>"

definition sample_server :: "unit Server" where
  "sample_server =
     \<lparr>storage = [''k3x9q2'' \<mapsto> sample_session], awsService = new_AwsService\<rparr>"

definition cookie :: "string \<Rightarrow> Request" where
  "cookie sid = \<lparr>session = Some \<lparr>sessionId = Some sid\<rparr>\<rparr>"

text \<open>
  A listing of the prefix \<open>photos/\<close>: two common prefixes, the first of them the queried
  prefix itself, the directory marker of the prefix and one file.
\<close>

definition photos_listing :: ListObjectsV2Output where
  "photos_listing =
     \<lparr>CommonPrefixes = Some [\<lparr>Prefix = Some ''photos/''\<rparr>, \<lparr>Prefix = Some ''photos/2024/''\<rparr>],
      Contents = Some
        [\<lparr>Key = Some ''photos/'', Size = Some 0, LastModified = Some 1700000000000,
          ETag = Some ''d41d8cd9'', StorageClass = Some ''STANDARD''\<rparr>,
         \<lparr>Key = Some ''photos/a.txt'', Size = Some 3, LastModified = Some 1700000000001,
          ETag = Some ''900150983c'', StorageClass = Some ''STANDARD''\<rparr>]\<rparr>"

text \<open>A store with two sessions, and the credentials of a third connection.\<close>

definition other_credentials :: AwsCredentials where
  "other_credentials =
     \<lparr>accessKeyId = ''AKIAOTHER'', secretAccessKey = ''0th3r'', region = ''us-east-1'',
      sessionToken = Some ''FwoGZX''\<rparr>"

definition two_sessions :: MemStorage where
  "two_sessions =
     [''k3x9q2'' \<mapsto> sample_session,
      ''p0o9i8'' \<mapsto> \<lparr>session_id = ''p0o9i8'', credentials = other_credentials,
                       createdAt = 1\<rparr>]"


text \<open>
  A provider whose client is the credentials it was constructed with and which lists,
  for a client, one bucket named after its access key; and a server whose store holds
  the sample session.
\<close>

definition tenant_sdk :: "AwsCredentials sdk" where
  "tenant_sdk =
     \<lparr>newS3Client = (\<lambda>creds. Inr creds),
      send_ListBuckets =
        (\<lambda>c. Inr \<lparr>Buckets = Some [\<lparr>Name = Some (accessKeyId c @ ''-bucket''),
                                      CreationDate = None\<rparr>]\<rparr>),
      send_ListObjectsV2 = (\<lambda>c b p d. Inl (Error ''AccessDenied'')),
      getSignedUrl_GetObject = (\<lambda>c b k n. Inl (Error ''AccessDenied'')),
      send_DeleteObject = (\<lambda>c b k. Inl (Error ''AccessDenied'')),
      send_PutObject = (\<lambda>c b k body. Inl (Error ''AccessDenied''))\<rparr>"

definition tenant_server :: "AwsCredentials Server" where
  "tenant_server =
     \<lparr>storage = [''k3x9q2'' \<mapsto> sample_session], awsService = new_AwsService\<rparr>"

section \<open>Object listing\<close>

lemma foldl_push_folder:
  "foldl push_folder acc cps = acc @ map folder_entry cps"
  by (induction cps arbitrary: acc) (simp_all add: push_folder_def push_def)

lemma foldl_push_file:
  "foldl (push_file p) acc cs =
     acc @ map file_entry (filter (\<lambda>object. Key object \<noteq> Some p) cs)"
  by (induction cs arbitrary: acc) (simp_all add: push_file_def push_def)

text \<open>The two loops together: the folders, then the files that pass the test.\<close>

lemma collect_objects_eq:
  "collect_objects p response =
     map folder_entry (list_of (CommonPrefixes response))
     @ map file_entry
         (filter (\<lambda>object. Key object \<noteq> Some p) (list_of (Contents response)))"
  by (simp add: collect_objects_def list_of_def foldl_push_folder foldl_push_file
      split: option.splits)

lemma listObjects_bound:
  assumes "s3Client svc = Some c"
    and "send_ListObjectsV2 sdk c bucketName (arg_or p '''') (arg_or d ''/'') = Inr response"
  shows "listObjects sdk svc bucketName p d = Inr (collect_objects (arg_or p '''') response)"
  using assms by (simp add: listObjects_def)






text \<open>
  C2: when the provider answers a listing, the result of \<open>listObjects\<close> starts with one
  entry for each common prefix of the answer, in the order of the answer, each with
  \<open>isFolder\<close> true and with no size, modification date, entity tag or storage class;
  every entry after them is a file entry, so all folder entries precede all file entries.
\<close>

theorem listObjects_folders_first:
  assumes "s3Client svc = Some c"
    and "send_ListObjectsV2 sdk c bucketName (arg_or p '''') (arg_or d ''/'') = Inr response"
  shows "\<exists>files. listObjects sdk svc bucketName p d =
           Inr (map (\<lambda>cp. \<lparr>key = Prefix cp, size_of = None, lastModified = None,
                             etag = None, storageClass = None, isFolder = True\<rparr>)
                    (list_of (CommonPrefixes response)) @ files)
         \<and> (\<forall>f \<in> set files. \<not> isFolder f)"
proof -
  let ?files = "map file_entry (filter (\<lambda>object. Key object \<noteq> Some (arg_or p ''''))
                  (list_of (Contents response)))"
  have "map folder_entry (list_of (CommonPrefixes response)) =
          map (\<lambda>cp. \<lparr>key = Prefix cp, size_of = None, lastModified = None,
                       etag = None, storageClass = None, isFolder = True\<rparr>)
              (list_of (CommonPrefixes response))"
    by (simp add: folder_entry_def)
  then have "listObjects sdk svc bucketName p d =
          Inr (map (\<lambda>cp. \<lparr>key = Prefix cp, size_of = None, lastModified = None,
                             etag = None, storageClass = None, isFolder = True\<rparr>)
                    (list_of (CommonPrefixes response)) @ ?files)"
    using listObjects_bound [OF assms] by (simp add: collect_objects_eq)
  moreover have "\<forall>f \<in> set ?files. \<not> isFolder f"
    by (simp add: file_entry_def)
  ultimately show ?thesis by blast
qed

theorem listObjects_folders_first_witness:
  "\<exists>files. listObjects (listing_sdk photos_listing) \<lparr>s3Client = Some ()\<rparr> ''bucket''
              (Some ''photos/'') (Some ''/'') =
           Inr ([\<lparr>key = Some ''photos/'', size_of = None, lastModified = None,
                  etag = None, storageClass = None, isFolder = True\<rparr>,
                 \<lparr>key = Some ''photos/2024/'', size_of = None, lastModified = None,
                  etag = None, storageClass = None, isFolder = True\<rparr>] @ files)
         \<and> (\<forall>f \<in> set files. \<not> isFolder f)"
proof -
  have c: "s3Client \<lparr>s3Client = Some ()\<rparr> = Some ()"
    by simp
  have r: "send_ListObjectsV2 (listing_sdk photos_listing) () ''bucket''
             (arg_or (Some ''photos/'') '''') (arg_or (Some ''/'') ''/'') = Inr photos_listing"
    by (simp add: listing_sdk_def)
  from listObjects_folders_first [OF c r]
  show ?thesis by (simp add: photos_listing_def list_of_def)
qed

section \<open>Credential validation\<close>

lemma z_string_min1_bad:
  "v = JUndefined \<or> v = JString [] \<Longrightarrow>
     \<exists>i. z_string_min1 f m v = Inl [i] \<and> path i = [f]"
  by (auto simp add: invalid_type_issue_def)

lemma parse_object:
  "awsCredentialsSchema_parse (JObject kvs) =
     (case (z_string_min1 ''accessKeyId'' ''Access Key ID is required''
              (getProp (JObject kvs) ''accessKeyId''),
            z_string_min1 ''secretAccessKey'' ''Secret Access Key is required''
              (getProp (JObject kvs) ''secretAccessKey''),
            z_string_min1 ''region'' ''Region is required'' (getProp (JObject kvs) ''region''),
            z_string_optional ''sessionToken'' (getProp (JObject kvs) ''sessionToken'')) of
        (Inr a', Inr s', Inr r', Inr t') \<Rightarrow>
           Inr \<lparr>accessKeyId = a', secretAccessKey = s', region = r', sessionToken = t'\<rparr>
      | (a, s, r, t) \<Rightarrow> Inl (issues_of a @ issues_of s @ issues_of r @ issues_of t))"
  by (simp add: awsCredentialsSchema_parse_def Let_def split: sum.splits)

lemma parse_issues:
  assumes "a = Inl ia \<or> s = Inl ib \<or> r = Inl ic"
  shows "(case (a, s, r, t) of
        (Inr a', Inr s', Inr r', Inr t') \<Rightarrow>
           Inr \<lparr>accessKeyId = a', secretAccessKey = s', region = r', sessionToken = t'\<rparr>
      | (a, s, r, t) \<Rightarrow> Inl (issues_of a @ issues_of s @ issues_of r @ issues_of t))
     = Inl (issues_of a @ issues_of s @ issues_of r @ issues_of t)"
  using assms by (auto split: sum.splits)

text \<open>
  C3: a static-key payload is an object whose \<open>accessKeyId\<close>, \<open>secretAccessKey\<close> and
  \<open>region\<close> are strings or missing and whose \<open>sessionToken\<close> is a string or missing.
  When the three required properties are non-empty strings, \<open>awsCredentialsSchema.parse\<close>
  returns the record with exactly the fields of the payload. When one of the three is
  missing or the empty string, it fails, and among the issues of the error there is one
  whose path is that property.
\<close>

theorem awsCredentialsSchema_parse_resolves:
  "(getProp (JObject kvs) ''accessKeyId'' = JString a \<and> a \<noteq> []
      \<and> getProp (JObject kvs) ''secretAccessKey'' = JString s \<and> s \<noteq> []
      \<and> getProp (JObject kvs) ''region'' = JString r \<and> r \<noteq> []
      \<and> (getProp (JObject kvs) ''sessionToken'' = JUndefined \<and> t = None
           \<or> (\<exists>tok. getProp (JObject kvs) ''sessionToken'' = JString tok \<and> t = Some tok))
     \<longrightarrow> awsCredentialsSchema_parse (JObject kvs) =
           Inr \<lparr>accessKeyId = a, secretAccessKey = s, region = r, sessionToken = t\<rparr>)
   \<and> (f \<in> {''accessKeyId'', ''secretAccessKey'', ''region''}
      \<and> (getProp (JObject kvs) f = JUndefined \<or> getProp (JObject kvs) f = JString [])
     \<longrightarrow> (\<exists>issues. awsCredentialsSchema_parse (JObject kvs) = Inl issues
           \<and> (\<exists>i \<in> set issues. path i = [f])))"
proof (intro conjI impI)
  assume "getProp (JObject kvs) ''accessKeyId'' = JString a \<and> a \<noteq> []
      \<and> getProp (JObject kvs) ''secretAccessKey'' = JString s \<and> s \<noteq> []
      \<and> getProp (JObject kvs) ''region'' = JString r \<and> r \<noteq> []
      \<and> (getProp (JObject kvs) ''sessionToken'' = JUndefined \<and> t = None
           \<or> (\<exists>tok. getProp (JObject kvs) ''sessionToken'' = JString tok \<and> t = Some tok))"
  then show "awsCredentialsSchema_parse (JObject kvs) =
           Inr \<lparr>accessKeyId = a, secretAccessKey = s, region = r, sessionToken = t\<rparr>"
    unfolding parse_object by auto
next
  assume h: "f \<in> {''accessKeyId'', ''secretAccessKey'', ''region''}
      \<and> (getProp (JObject kvs) f = JUndefined \<or> getProp (JObject kvs) f = JString [])"
  let ?a = "z_string_min1 ''accessKeyId'' ''Access Key ID is required''
              (getProp (JObject kvs) ''accessKeyId'')"
  let ?s = "z_string_min1 ''secretAccessKey'' ''Secret Access Key is required''
              (getProp (JObject kvs) ''secretAccessKey'')"
  let ?r = "z_string_min1 ''region'' ''Region is required'' (getProp (JObject kvs) ''region'')"
  let ?t = "z_string_optional ''sessionToken'' (getProp (JObject kvs) ''sessionToken'')"
  from h have bad: "getProp (JObject kvs) f = JUndefined \<or> getProp (JObject kvs) f = JString []"
    by simp
  from h consider "f = ''accessKeyId''" | "f = ''secretAccessKey''" | "f = ''region''"
    by auto
  then have "\<exists>i. (?a = Inl [i] \<or> ?s = Inl [i] \<or> ?r = Inl [i]) \<and> path i = [f]"
  proof cases
    case 1
    with z_string_min1_bad [OF bad, of f "''Access Key ID is required''"]
    show ?thesis by auto
  next
    case 2
    with z_string_min1_bad [OF bad, of f "''Secret Access Key is required''"]
    show ?thesis by auto
  next
    case 3
    with z_string_min1_bad [OF bad, of f "''Region is required''"]
    show ?thesis by auto
  qed
  then obtain i where i: "?a = Inl [i] \<or> ?s = Inl [i] \<or> ?r = Inl [i]"
    and p: "path i = [f]"
    by blast
  have eq: "awsCredentialsSchema_parse (JObject kvs) =
          Inl (issues_of ?a @ issues_of ?s @ issues_of ?r @ issues_of ?t)"
    unfolding parse_object using i
    by (intro parse_issues [where ia = "[i]" and ib = "[i]" and ic = "[i]"])
  have "i \<in> set (issues_of ?a @ issues_of ?s @ issues_of ?r @ issues_of ?t)"
    using i by (auto simp add: issues_of_def)
  with eq p show "\<exists>issues. awsCredentialsSchema_parse (JObject kvs) = Inl issues
           \<and> (\<exists>i \<in> set issues. path i = [f])"
    by blast
qed

theorem awsCredentialsSchema_parse_resolves_witness:
  "awsCredentialsSchema_parse
       (JObject [(''accessKeyId'', JString ''AKIAEXAMPLE''),
                 (''secretAccessKey'', JString ''s3cr3t''),
                 (''region'', JString ''eu-west-1'')])
     = Inr \<lparr>accessKeyId = ''AKIAEXAMPLE'', secretAccessKey = ''s3cr3t'',
            region = ''eu-west-1'', sessionToken = None\<rparr>
   \<and> (\<exists>issues. awsCredentialsSchema_parse
          (JObject [(''accessKeyId'', JString ''AKIAEXAMPLE''),
                    (''secretAccessKey'', JString '''')]) = Inl issues
        \<and> (\<exists>i \<in> set issues. path i = [''region'']))
   \<and> (\<exists>issues. awsCredentialsSchema_parse
          (JObject [(''accessKeyId'', JString ''AKIAEXAMPLE''),
                    (''secretAccessKey'', JString '''')]) = Inl issues
        \<and> (\<exists>i \<in> set issues. path i = [''secretAccessKey'']))"
  using
    awsCredentialsSchema_parse_resolves
      [where kvs = "[(''accessKeyId'', JString ''AKIAEXAMPLE''),
                     (''secretAccessKey'', JString ''s3cr3t''),
                     (''region'', JString ''eu-west-1'')]"
         and a = "''AKIAEXAMPLE''" and s = "''s3cr3t''" and r = "''eu-west-1''" and t = None,
       THEN conjunct1]
    awsCredentialsSchema_parse_resolves
      [where kvs = "[(''accessKeyId'', JString ''AKIAEXAMPLE''),
                     (''secretAccessKey'', JString '''')]"
         and f = "''region''", THEN conjunct2]
    awsCredentialsSchema_parse_resolves
      [where kvs = "[(''accessKeyId'', JString ''AKIAEXAMPLE''),
                     (''secretAccessKey'', JString '''')]"
         and f = "''secretAccessKey''", THEN conjunct2]
  by simp

section \<open>The session store\<close>

text \<open>
  C4: whatever the store, the random string and the time, \<open>getSession\<close> at the id of the
  session that \<open>createSession\<close> returns gives that session, which holds the record that
  was passed in; and after \<open>deleteSession\<close> of an id, \<open>getSession\<close> of that id gives
  nothing.
\<close>

theorem session_store_roundtrip:
  "getSession (snd (createSession rnd now sessions creds))
      (session_id (fst (createSession rnd now sessions creds)))
     = Some (fst (createSession rnd now sessions creds))
   \<and> credentials (fst (createSession rnd now sessions creds)) = creds
   \<and> getSession (deleteSession sessions sid) sid = None"
  by (simp add: createSession_def getSession_def deleteSession_def Let_def)

text \<open>
  C9 does not hold of the code. The id of a session is a function of the one number
  that \<open>Math.random()\<close> returns, so whatever digits \<open>toString(36)\<close> prints, the set of
  ids that \<open>createSession\<close> can generate has at most \<open>2 ^ 64\<close> elements, far fewer than
  \<open>2 ^ 128\<close>. For the number \<open>0.5\<close>, printed as \<open>0.i\<close>, the id is even the empty string.
\<close>

theorem session_id_space:
  fixes toString36 :: "float64 \<Rightarrow> string"
  shows "card (range (\<lambda>x. session_id (fst (createSession (toString36 x) now sessions creds))))
           \<le> 2 ^ 64
       \<and> session_id (fst (createSession ''0.i'' now sessions creds)) = []"
proof
  have "card (range (\<lambda>x. session_id (fst (createSession (toString36 x) now sessions creds))))
          \<le> card (UNIV :: float64 set)"
    by (rule card_image_le) simp
  also have "card (UNIV :: float64 set) = 2 ^ 64"
    by (simp add: card_word)
  finally show
    "card (range (\<lambda>x. session_id (fst (createSession (toString36 x) now sessions creds))))
       \<le> 2 ^ 64" .
  show "session_id (fst (createSession ''0.i'' now sessions creds)) = []"
    by (simp add: createSession_def Let_def)
qed

text \<open>
  C10: \<open>createSession\<close> leaves the entry of every id other than the one it returns as it
  was, and \<open>deleteSession\<close> removes the entry of the given id and leaves every other
  entry as it was. The id is not checked for freshness: when the store already has a
  session under the generated id, \<open>createSession\<close> returns as always and the store then
  holds the new session under that id.
\<close>

theorem session_store_frame:
  "(k \<noteq> session_id (fst (createSession rnd now sessions creds))
      \<longrightarrow> getSession (snd (createSession rnd now sessions creds)) k = getSession sessions k)
   \<and> (k \<noteq> sid
      \<longrightarrow> getSession (deleteSession sessions sid) k = getSession sessions k)
   \<and> getSession (deleteSession sessions sid) sid = None
   \<and> (getSession sessions (drop 7 rnd) = Some old
      \<longrightarrow> session_id (fst (createSession rnd now sessions creds)) = drop 7 rnd
        \<and> getSession (snd (createSession rnd now sessions creds)) (drop 7 rnd)
            = Some \<lparr>session_id = drop 7 rnd, credentials = creds, createdAt = now\<rparr>)"
  by (simp add: createSession_def getSession_def deleteSession_def Let_def)

theorem session_store_frame_witness:
  "getSession (snd (createSession ''0.abcdek3x9q2'' 5 two_sessions other_credentials)) ''p0o9i8''
     = getSession two_sessions ''p0o9i8''
   \<and> getSession (deleteSession two_sessions ''k3x9q2'') ''p0o9i8''
     = getSession two_sessions ''p0o9i8''
   \<and> getSession two_sessions ''p0o9i8''
     = Some \<lparr>session_id = ''p0o9i8'', credentials = other_credentials, createdAt = 1\<rparr>
   \<and> getSession two_sessions (drop 7 ''0.abcdek3x9q2'') = Some sample_session
   \<and> getSession (snd (createSession ''0.abcdek3x9q2'' 5 two_sessions other_credentials))
        ''k3x9q2''
     = Some \<lparr>session_id = ''k3x9q2'', credentials = other_credentials, createdAt = 5\<rparr>"
proof -
  have old: "getSession two_sessions (drop 7 ''0.abcdek3x9q2'') = Some sample_session"
    by (simp add: getSession_def two_sessions_def)
  have other: "getSession two_sessions ''p0o9i8''
     = Some \<lparr>session_id = ''p0o9i8'', credentials = other_credentials, createdAt = 1\<rparr>"
    by (simp add: getSession_def two_sessions_def)
  have id: "session_id (fst (createSession ''0.abcdek3x9q2'' 5 two_sessions other_credentials))
     = ''k3x9q2''"
    by (simp add: createSession_def Let_def)
  from session_store_frame
         [where k = "''p0o9i8''" and sid = "''k3x9q2''" and rnd = "''0.abcdek3x9q2''"
            and now = 5 and sessions = two_sessions and creds = other_credentials
            and old = sample_session]
  show ?thesis using old other id by simp
qed

section \<open>The gateway without a client\<close>

text \<open>
  C5: while the field \<open>s3Client\<close> is \<open>null\<close>, each of the five operations throws the
  error with the message \<open>AWS client not initialized\<close> instead of returning a result,
  whatever the provider would answer. (The handlers answer a thrown error with status
  500, the class that the specification calls \<open>ProviderError\<close>.)
\<close>

theorem unbound_operations_fail:
  assumes "s3Client svc = None"
  shows "listBuckets sdk svc = Inl (Error ''AWS client not initialized'')
       \<and> listObjects sdk svc bucketName p d = Inl (Error ''AWS client not initialized'')
       \<and> getDownloadUrl sdk svc bucketName k = Inl (Error ''AWS client not initialized'')
       \<and> deleteObject sdk svc bucketName k = Inl (Error ''AWS client not initialized'')
       \<and> uploadObject sdk svc bucketName k body = Inl (Error ''AWS client not initialized'')"
  using assms
  by (simp add: listBuckets_def listObjects_def getDownloadUrl_def deleteObject_def
      uploadObject_def)

theorem unbound_operations_fail_witness:
  "s3Client (new_AwsService :: unit AwsService) = None
   \<and> listBuckets (listing_sdk photos_listing) new_AwsService
       = Inl (Error ''AWS client not initialized'')
   \<and> listObjects (listing_sdk photos_listing) new_AwsService ''bucket'' (Some ''photos/'') None
       = Inl (Error ''AWS client not initialized'')
   \<and> getDownloadUrl (listing_sdk photos_listing) new_AwsService ''bucket'' ''photos/a.txt''
       = Inl (Error ''AWS client not initialized'')
   \<and> deleteObject (listing_sdk photos_listing) new_AwsService ''bucket'' ''photos/a.txt''
       = Inl (Error ''AWS client not initialized'')
   \<and> uploadObject (listing_sdk photos_listing) new_AwsService ''bucket'' ''photos/a.txt'' ''abc''
       = Inl (Error ''AWS client not initialized'')"
proof -
  have unbound: "s3Client (new_AwsService :: unit AwsService) = None"
    by (simp add: new_AwsService_def)
  from unbound_operations_fail [OF unbound] unbound show ?thesis
    by simp
qed

text \<open>
  With a client, \<open>getDownloadUrl\<close> is the presigner of the SDK applied to that client,
  the bucket, the key and an expiry of 3600 seconds: its result, or its error, is
  returned as it is.
\<close>

lemma getDownloadUrl_bound:
  "s3Client svc = Some c \<Longrightarrow>
     getDownloadUrl sdk svc bucketName k = getSignedUrl_GetObject sdk c bucketName k 3600"
  by (simp add: getDownloadUrl_def)

section \<open>The routes\<close>

text \<open>
  C7: \<open>GET /api/connection/status\<close> always answers with status 200 and a body
  \<open>connected\<close>. The body is \<open>connected: false\<close> when the cookie carries no session id
  (or an empty one), when the store has no session under the id, and when constructing
  the client for the stored credentials throws. It is \<open>connected: true\<close>, with the
  region of the stored credentials, exactly when the id is non-empty, the store has a
  session under it and the client is constructed.
\<close>

theorem connection_status_never_errors:
  "statusCode (fst (connection_status sdk srv req)) = 200
   \<and> (resBody (fst (connection_status sdk srv req)) = Connected False None
        \<or> (\<exists>sid s c. sid \<noteq> [] \<and> req_sessionId req = Some sid
              \<and> getSession (storage srv) sid = Some s
              \<and> newS3Client sdk (credentials s) = Inr c
              \<and> resBody (fst (connection_status sdk srv req))
                   = Connected True (Some (region (credentials s)))))
   \<and> (falsy (req_sessionId req)
        \<longrightarrow> resBody (fst (connection_status sdk srv req)) = Connected False None)
   \<and> (req_sessionId req = Some sid' \<and> getSession (storage srv) sid' = None
        \<longrightarrow> resBody (fst (connection_status sdk srv req)) = Connected False None)
   \<and> (req_sessionId req = Some sid' \<and> getSession (storage srv) sid' = Some s'
          \<and> newS3Client sdk (credentials s') = Inl e
        \<longrightarrow> resBody (fst (connection_status sdk srv req)) = Connected False None)
   \<and> (sid' \<noteq> [] \<and> req_sessionId req = Some sid' \<and> getSession (storage srv) sid' = Some s'
          \<and> newS3Client sdk (credentials s') = Inr c'
        \<longrightarrow> resBody (fst (connection_status sdk srv req))
              = Connected True (Some (region (credentials s'))))"
  by (auto simp add: connection_status_def json_def falsy_def initializeWithCredentials_def
      split: option.splits sum.splits prod.splits if_splits)

theorem connection_status_never_errors_witness:
  "fst (connection_status (listing_sdk photos_listing) sample_server \<lparr>session = None\<rparr>)
     = \<lparr>statusCode = 200, resBody = Connected False None\<rparr>
   \<and> fst (connection_status (listing_sdk photos_listing) sample_server (cookie ''zz9zz9''))
     = \<lparr>statusCode = 200, resBody = Connected False None\<rparr>
   \<and> fst (connection_status failing_sdk sample_server (cookie ''k3x9q2''))
     = \<lparr>statusCode = 200, resBody = Connected False None\<rparr>
   \<and> fst (connection_status (listing_sdk photos_listing) sample_server (cookie ''k3x9q2''))
     = \<lparr>statusCode = 200, resBody = Connected True (Some ''eu-west-1'')\<rparr>"
proof -
  have none: "falsy (req_sessionId \<lparr>session = None\<rparr>)"
    by (simp add: falsy_def req_sessionId_def)
  have unknown: "req_sessionId (cookie ''zz9zz9'') = Some ''zz9zz9''
      \<and> getSession (storage sample_server) ''zz9zz9'' = None"
    by (simp add: req_sessionId_def cookie_def getSession_def sample_server_def)
  have stored: "req_sessionId (cookie ''k3x9q2'') = Some ''k3x9q2''
      \<and> getSession (storage sample_server) ''k3x9q2'' = Some sample_session"
    by (simp add: req_sessionId_def cookie_def getSession_def sample_server_def)
  have throws: "newS3Client failing_sdk (credentials sample_session)
      = Inl (Error ''Region is missing'')"
    by (simp add: failing_sdk_def)
  have constructs: "newS3Client (listing_sdk photos_listing) (credentials sample_session)
      = Inr ()"
    by (simp add: listing_sdk_def)
  have region: "region (credentials sample_session) = ''eu-west-1''"
    by (simp add: sample_session_def sample_credentials_def)
  note a = connection_status_never_errors
             [where sdk = "listing_sdk photos_listing" and srv = sample_server
                and req = "\<lparr>session = None\<rparr>"]
  note b = connection_status_never_errors
             [where sdk = "listing_sdk photos_listing" and srv = sample_server
                and req = "cookie ''zz9zz9''" and sid' = "''zz9zz9''"]
  note c = connection_status_never_errors
             [where sdk = failing_sdk and srv = sample_server
                and req = "cookie ''k3x9q2''" and sid' = "''k3x9q2''"
                and s' = sample_session and e = "Error ''Region is missing''"]
  note d = connection_status_never_errors
             [where sdk = "listing_sdk photos_listing" and srv = sample_server
                and req = "cookie ''k3x9q2''" and sid' = "''k3x9q2''"
                and s' = sample_session and c' = "()"]
  have "fst (connection_status (listing_sdk photos_listing) sample_server \<lparr>session = None\<rparr>)
     = \<lparr>statusCode = 200, resBody = Connected False None\<rparr>"
    using a none by simp
  moreover
  have "fst (connection_status (listing_sdk photos_listing) sample_server (cookie ''zz9zz9''))
     = \<lparr>statusCode = 200, resBody = Connected False None\<rparr>"
    using b unknown by simp
  moreover
  have "fst (connection_status failing_sdk sample_server (cookie ''k3x9q2''))
     = \<lparr>statusCode = 200, resBody = Connected False None\<rparr>"
    using c stored throws by simp
  moreover
  have "fst (connection_status (listing_sdk photos_listing) sample_server (cookie ''k3x9q2''))
     = \<lparr>statusCode = 200, resBody = Connected True (Some ''eu-west-1'')\<rparr>"
    using d stored constructs region by simp
  ultimately show ?thesis by simp
qed

lemma get_buckets_falsy:
  "falsy (req_sessionId req) \<Longrightarrow>
     fst (get_buckets sdk srv req) = \<lparr>statusCode = 401, resBody = ErrorBody ''Not connected''\<rparr>"
  by (simp add: get_buckets_def status_json_def falsy_def split: option.splits)

lemma get_buckets_unknown:
  "req_sessionId req = Some sid \<Longrightarrow> sid \<noteq> [] \<Longrightarrow> getSession (storage srv) sid = None \<Longrightarrow>
     fst (get_buckets sdk srv req)
       = \<lparr>statusCode = 401, resBody = ErrorBody ''Invalid session''\<rparr>"
  by (simp add: get_buckets_def status_json_def falsy_def)

lemma disconnect_falsy:
  "falsy (req_sessionId req) \<Longrightarrow> disconnect srv req = (json Success, srv, session req)"
  by (simp add: disconnect_def falsy_def split: option.splits)

lemma disconnect_session:
  "req_sessionId req = Some sid \<Longrightarrow> sid \<noteq> [] \<Longrightarrow>
     disconnect srv req =
       (json Success, srv\<lparr>storage := deleteSession (storage srv) sid\<rparr>, None)"
  by (simp add: disconnect_def falsy_def)

text \<open>
  Calls of the store that do not generate an id leave it without a session under
  that id.
\<close>

lemma foldl_apply_store_op_absent:
  "getSession sessions sid = None \<Longrightarrow> \<forall>op \<in> set ops. generated_id op \<noteq> Some sid \<Longrightarrow>
     getSession (foldl apply_store_op sessions ops) sid = None"
proof (induction ops arbitrary: sessions)
  case Nil
  then show ?case by simp
next
  case (Cons op ops)
  have "getSession (apply_store_op sessions op) sid = None"
  proof (cases op)
    case (CreateOp rnd now creds)
    with Cons.prems show ?thesis
      by (auto simp add: createSession_def getSession_def Let_def)
  next
    case (DeleteOp other)
    with Cons.prems show ?thesis
      by (simp add: deleteSession_def getSession_def)
  qed
  with Cons show ?case by simp
qed

text \<open>
  \<open>POST /api/disconnect\<close> answers \<open>success: true\<close> with status 200 for every request,
  with or without a session, and \<open>GET /api/buckets\<close> with the cookie of the disconnect
  request then answers 401. It still does so later, whatever client the gateway then
  holds, after any calls of the store in which no new session was given the id of the
  cookie.
\<close>

lemma disconnect_then_buckets_401:
  "fst (disconnect srv req) = \<lparr>statusCode = 200, resBody = Success\<rparr>
   \<and> statusCode (fst (get_buckets sdk (fst (snd (disconnect srv req))) req)) = 401
   \<and> ((\<forall>op \<in> set ops. generated_id op \<noteq> req_sessionId req)
      \<longrightarrow> statusCode (fst (get_buckets sdk
            ((fst (snd (disconnect srv req)))
               \<lparr>storage := foldl apply_store_op (storage (fst (snd (disconnect srv req)))) ops,
                awsService := svc\<rparr>) req)) = 401)"
proof (cases "falsy (req_sessionId req)")
  case True
  then show ?thesis
    by (simp add: disconnect_falsy get_buckets_falsy json_def)
next
  case False
  then obtain sid where sid: "req_sessionId req = Some sid" "sid \<noteq> []"
    by (auto simp add: falsy_def split: option.splits)
  let ?srv = "srv\<lparr>storage := deleteSession (storage srv) sid\<rparr>"
  have gone: "getSession (storage ?srv) sid = None"
    by (simp add: getSession_def deleteSession_def)
  have now: "statusCode (fst (get_buckets sdk ?srv req)) = 401"
    using get_buckets_unknown [OF sid gone] by simp
  have later: "statusCode (fst (get_buckets sdk
          (?srv\<lparr>storage := foldl apply_store_op (storage ?srv) ops, awsService := svc\<rparr>) req))
        = 401"
    if ops: "\<forall>op \<in> set ops. generated_id op \<noteq> req_sessionId req"
  proof -
    from ops sid have "\<forall>op \<in> set ops. generated_id op \<noteq> Some sid"
      by simp
    with gone have "getSession (foldl apply_store_op (storage ?srv) ops) sid = None"
      by (rule foldl_apply_store_op_absent)
    then show ?thesis
      using get_buckets_unknown
              [OF sid, of "?srv\<lparr>storage := foldl apply_store_op (storage ?srv) ops,
                                awsService := svc\<rparr>"]
      by simp
  qed
  from now later show ?thesis
    by (simp add: disconnect_session [OF sid] json_def)
qed

text \<open>
  C8 does not hold of the code. The session with id \<open>k3x9q2\<close> is disconnected, and a
  replay of its cookie at once is answered 401. Then another user connects, and
  \<open>createSession\<close> generates the id \<open>k3x9q2\<close> again (from the random string
  \<open>0.abcdek3x9q2\<close>; nothing checks that an id is fresh). The same replay of the old
  cookie is now answered 200, with the buckets of the other user's credentials.
\<close>

theorem disconnect_replay_after_id_reuse:
  "fst (disconnect tenant_server (cookie ''k3x9q2'')) = \<lparr>statusCode = 200, resBody = Success\<rparr>
   \<and> fst (get_buckets tenant_sdk (fst (snd (disconnect tenant_server (cookie ''k3x9q2''))))
        (cookie ''k3x9q2''))
     = \<lparr>statusCode = 401, resBody = ErrorBody ''Invalid session''\<rparr>
   \<and> fst (get_buckets tenant_sdk
        ((fst (snd (disconnect tenant_server (cookie ''k3x9q2''))))
           \<lparr>storage := apply_store_op
                         (storage (fst (snd (disconnect tenant_server (cookie ''k3x9q2'')))))
                         (CreateOp ''0.abcdek3x9q2'' 5 other_credentials)\<rparr>)
        (cookie ''k3x9q2''))
     = \<lparr>statusCode = 200,
        resBody = BucketsBody [\<lparr>name = Some ''AKIAOTHER-bucket'', bucket_region = ''us-east-1'',
                                creationDate = None\<rparr>]\<rparr>"
  by (simp add: disconnect_def get_buckets_def req_sessionId_def cookie_def falsy_def
      json_def status_json_def tenant_server_def tenant_sdk_def getSession_def
      deleteSession_def createSession_def Let_def initializeWithCredentials_def
      listBuckets_def list_of_def new_AwsService_def other_credentials_def)

text \<open>
  A session whose generated id is the empty string is never removed by
  \<open>POST /api/disconnect\<close>: the handler takes the empty id of the cookie for no session.
\<close>

lemma disconnect_keeps_empty_id_session:
  "getSession (snd (createSession ''0.i'' now sessions creds)) []
     = Some \<lparr>session_id = [], credentials = creds, createdAt = now\<rparr>
   \<and> storage (fst (snd (disconnect
        \<lparr>storage = snd (createSession ''0.i'' now sessions creds), awsService = svc\<rparr>
        (cookie []))))
     = snd (createSession ''0.i'' now sessions creds)"
  by (simp add: createSession_def getSession_def Let_def disconnect_def req_sessionId_def
      cookie_def falsy_def)

end
